theory Spec2Isabelle
  imports Main "HOL-Library.Word"
begin

unbundle bit_operations_syntax

section \<open>The Qt pasteboard of WebCore (PasteboardQt.cpp)\<close>

text \<open>
  The development embeds \<^verbatim>\<open>Source/WebCore/platform/qt/PasteboardQt.cpp\<close>.
  A \<^verbatim>\<open>Pasteboard\<close> object is a record of its four members; the process-wide
  \<^verbatim>\<open>QGuiApplication::clipboard()\<close> is a second record that every operation touching
  it takes and returns. The build modelled is the one with a clipboard
  (\<^verbatim>\<open>QT_NO_CLIPBOARD\<close> undefined) and with drag support.

  Pointers to \<^verbatim>\<open>QMimeData\<close> are options of values: \<open>None\<close> is the null pointer. A
  readable binding is therefore a snapshot of the data it points to, and a collection
  handed to the host clipboard is copied there.
\<close>

subsection \<open>Strings, byte arrays, URLs\<close>

text \<open>
  \<^verbatim>\<open>String\<close> and \<^verbatim>\<open>QString\<close> are sequences of UTF-16 code units; the null and the
  empty string are both \<open>[]\<close>. \<^verbatim>\<open>QLatin1String\<close> and \<^verbatim>\<open>QLatin1Char\<close> literals map
  each 8-bit character to the code unit of the same value.
\<close>

type_synonym QChar = "16 word"
type_synonym QString = "QChar list"
type_synonym QByteArray = "8 word list"

definition fromLatin1 :: "string \<Rightarrow> QString" where
  "fromLatin1 s = map of_char s"

text \<open>Modelled from the spec: \<^verbatim>\<open>String::startsWith\<close> (WTF, not in the file), "match by prefix".\<close>

fun startsWith :: "QString \<Rightarrow> QString \<Rightarrow> bool" where
  "startsWith s [] = True"
| "startsWith [] (c # cs) = False"
| "startsWith (x # xs) (c # cs) = (x = c \<and> startsWith xs cs)"

text \<open>
  Modelled from the spec: \<^verbatim>\<open>QString::replace(QChar, QChar)\<close> (Qt, not in the file),
  "normalize non-breaking spaces to ordinary spaces": every occurrence is replaced.
\<close>

definition replace_QChar :: "QChar \<Rightarrow> QChar \<Rightarrow> QString \<Rightarrow> QString" where
  "replace_QChar before after s = map (\<lambda>c. if c = before then after else c) s"

text \<open>
  A \<^verbatim>\<open>QUrl\<close> is kept as its scheme (which \<^verbatim>\<open>QUrl::scheme()\<close> returns) and the rest
  of the URL.
\<close>

record QUrl =
  url_scheme :: QString
  url_rest :: QString

subsection \<open>The typed-entry collection (QMimeData)\<close>

text \<open>
  Modelled from the spec: \<^verbatim>\<open>QMimeData\<close> (Qt, not in the file). A collection is the
  list of its typed entries in the order the host enumerates them; a payload is native
  text (the text and rich-text slots), an opaque byte sequence or a list of URLs.
  Setting an entry replaces the entry of the same type identifier and puts the new one
  last; the text slot lives under \<^verbatim>\<open>text/plain\<close>, the rich-text slot under
  \<^verbatim>\<open>text/html\<close>, the URL list under \<^verbatim>\<open>text/uri-list\<close>.
\<close>

datatype QVariant =
    VString QString
  | VByteArray QByteArray
  | VUrlList "QUrl list"

type_synonym QMimeData = "(QString \<times> QVariant) list"

text \<open>
  What the file takes from its build and from the libraries below it, and what the
  source does not determine, is a parameter of the model:
  \<^item> \<open>q_os_mac\<close>: whether \<^verbatim>\<open>Q_OS_MAC\<close> is defined;
  \<^item> \<open>littleEndian\<close>: the byte order of the machine (\<^verbatim>\<open>reinterpret_cast\<close> of
    \<^verbatim>\<open>characters16()\<close> exposes it);
  \<^item> \<open>codecUtf16_toUnicode\<close>: \<^verbatim>\<open>QTextCodec::codecForName("UTF-16")->toUnicode\<close>;
  \<^item> \<open>toUtf8\<close>: \<^verbatim>\<open>QString::toUtf8\<close>;
  \<^item> \<open>variantToString\<close>, \<open>variantToByteArray\<close>, \<open>variantToUrls\<close>: the conversion the
    host applies when an entry is read as another kind of payload than it holds;
  \<^item> \<open>toLocalFile\<close>: \<^verbatim>\<open>QUrl::toLocalFile\<close>.
\<close>

record Platform =
  q_os_mac :: bool
  littleEndian :: bool
  codecUtf16_toUnicode :: "QByteArray \<Rightarrow> QString"
  toUtf8 :: "QString \<Rightarrow> QByteArray"
  variantToString :: "QVariant \<Rightarrow> QString"
  variantToByteArray :: "QVariant \<Rightarrow> QByteArray"
  variantToUrls :: "QVariant \<Rightarrow> QUrl list"
  toLocalFile :: "QUrl \<Rightarrow> QString"

definition text_plain :: QString where
  "text_plain = fromLatin1 ''text/plain''"

definition text_html :: QString where
  "text_html = fromLatin1 ''text/html''"

definition text_uri_list :: QString where
  "text_uri_list = fromLatin1 ''text/uri-list''"

definition smartpaste :: QString where
  "smartpaste = fromLatin1 ''application/vnd.qtwebkit.smartpaste''"

definition formats :: "QMimeData \<Rightarrow> QString list" where
  "formats d = map fst d"

definition hasFormat :: "QMimeData \<Rightarrow> QString \<Rightarrow> bool" where
  "hasFormat d t = (t \<in> set (formats d))"

definition removeFormat :: "QString \<Rightarrow> QMimeData \<Rightarrow> QMimeData" where
  "removeFormat t d = filter (\<lambda>e. fst e \<noteq> t) d"

definition setVariant :: "QString \<Rightarrow> QVariant \<Rightarrow> QMimeData \<Rightarrow> QMimeData" where
  "setVariant t v d = removeFormat t d @ [(t, v)]"

definition setText :: "QString \<Rightarrow> QMimeData \<Rightarrow> QMimeData" where
  "setText s d = setVariant text_plain (VString s) d"

definition setHtml :: "QString \<Rightarrow> QMimeData \<Rightarrow> QMimeData" where
  "setHtml s d = setVariant text_html (VString s) d"

definition setData :: "QString \<Rightarrow> QByteArray \<Rightarrow> QMimeData \<Rightarrow> QMimeData" where
  "setData t b d = setVariant t (VByteArray b) d"

definition setUrls :: "QUrl list \<Rightarrow> QMimeData \<Rightarrow> QMimeData" where
  "setUrls us d = setVariant text_uri_list (VUrlList us) d"

definition hasText :: "QMimeData \<Rightarrow> bool" where
  "hasText d = hasFormat d text_plain"

definition hasHtml :: "QMimeData \<Rightarrow> bool" where
  "hasHtml d = hasFormat d text_html"

definition mime_text :: "Platform \<Rightarrow> QMimeData \<Rightarrow> QString" where
  "mime_text pl d =
     (case map_of d text_plain of
        None \<Rightarrow> []
      | Some (VString s) \<Rightarrow> s
      | Some v \<Rightarrow> variantToString pl v)"

definition html :: "Platform \<Rightarrow> QMimeData \<Rightarrow> QString" where
  "html pl d =
     (case map_of d text_html of
        None \<Rightarrow> []
      | Some (VString s) \<Rightarrow> s
      | Some v \<Rightarrow> variantToString pl v)"

definition data :: "Platform \<Rightarrow> QMimeData \<Rightarrow> QString \<Rightarrow> QByteArray" where
  "data pl d t =
     (case map_of d t of
        None \<Rightarrow> []
      | Some (VByteArray b) \<Rightarrow> b
      | Some v \<Rightarrow> variantToByteArray pl v)"

definition urls :: "Platform \<Rightarrow> QMimeData \<Rightarrow> QUrl list" where
  "urls pl d =
     (case map_of d text_uri_list of
        None \<Rightarrow> []
      | Some (VUrlList us) \<Rightarrow> us
      | Some v \<Rightarrow> variantToUrls pl v)"

subsection \<open>The host clipboard (QClipboard)\<close>

text \<open>
  Modelled from the spec: \<^verbatim>\<open>QClipboard\<close> (Qt, not in the file), "setting/getting a
  typed-entry collection addressed by primary clipboard or selection target" and "a bare
  image". A target that was handed the null pointer reads as the empty collection.
\<close>

datatype Mode = Clipboard | Selection

type_synonym QPixmap = nat

record QClipboard =
  clipboardSlot :: "QMimeData option"
  selectionSlot :: "QMimeData option"
  imageSlot :: "QPixmap option"

definition setMimeData :: "QMimeData option \<Rightarrow> Mode \<Rightarrow> QClipboard \<Rightarrow> QClipboard" where
  "setMimeData src mode h =
     (case mode of
        Clipboard \<Rightarrow> h\<lparr>clipboardSlot := src\<rparr>
      | Selection \<Rightarrow> h\<lparr>selectionSlot := src\<rparr>)"

definition slot :: "QClipboard \<Rightarrow> Mode \<Rightarrow> QMimeData option" where
  "slot h mode = (case mode of Clipboard \<Rightarrow> clipboardSlot h | Selection \<Rightarrow> selectionSlot h)"

definition mimeData :: "QClipboard \<Rightarrow> Mode \<Rightarrow> QMimeData" where
  "mimeData h mode = (case slot h mode of None \<Rightarrow> [] | Some d \<Rightarrow> d)"

definition setPixmap :: "QPixmap \<Rightarrow> QClipboard \<Rightarrow> QClipboard" where
  "setPixmap pixmap h = h\<lparr>imageSlot := Some pixmap\<rparr>"

subsection \<open>The pasteboard instance\<close>

record Pasteboard =
  m_selectionMode :: bool
  m_readableData :: "QMimeData option"
  m_writableData :: "QMimeData option"
  m_isForDragAndDrop :: bool

datatype SmartReplaceOption = CanSmartReplace | CannotSmartReplace

datatype ShouldSerializeSelectedTextForDataTransfer =
  DefaultSelectedTextType | IncludeImageAltTextForDataTransfer

text \<open>
  What \<^verbatim>\<open>writeSelection\<close> asks of the frame's editor: the two renderings of the
  selected text.
\<close>

record Editor =
  selectedTextForDataTransfer :: QString
  selectedText :: QString

definition isTextMimeType :: "QString \<Rightarrow> bool" where
  "isTextMimeType t = (t = text_plain \<or> startsWith t (fromLatin1 ''text/plain;''))"

definition isHtmlMimeType :: "QString \<Rightarrow> bool" where
  "isHtmlMimeType t = (t = text_html \<or> startsWith t (fromLatin1 ''text/html;''))"

text \<open>The constructor, and \<^verbatim>\<open>Pasteboard::create\<close>, which only forwards to it.\<close>

definition create :: "QMimeData option \<Rightarrow> bool \<Rightarrow> Pasteboard" where
  "create readableClipboard isForDragAndDrop =
     \<lparr>m_selectionMode = False,
      m_readableData = readableClipboard,
      m_writableData = None,
      m_isForDragAndDrop = isForDragAndDrop\<rparr>"

text \<open>
  Modelled from the spec: the default arguments of \<^verbatim>\<open>create\<close> and the two mode queries
  are declared in \<^verbatim>\<open>Pasteboard.h\<close>, which is not in the file: "bind-private: no readable
  binding", "forced for copy-and-paste classification", and the mode queries are "pure
  functions of the classification set at construction".
\<close>

definition isForDragAndDrop :: "Pasteboard \<Rightarrow> bool" where
  "isForDragAndDrop p = m_isForDragAndDrop p"

definition isForCopyAndPaste :: "Pasteboard \<Rightarrow> bool" where
  "isForCopyAndPaste p = (\<not> m_isForDragAndDrop p)"

definition createForCopyAndPaste :: "QClipboard \<Rightarrow> Pasteboard" where
  "createForCopyAndPaste h = create (Some (mimeData h Clipboard)) False"

definition createForGlobalSelection :: "QClipboard \<Rightarrow> Pasteboard" where
  "createForGlobalSelection h = (createForCopyAndPaste h)\<lparr>m_selectionMode := True\<rparr>"

definition createPrivate :: Pasteboard where
  "createPrivate = create None False"

definition createForDragAndDrop :: Pasteboard where
  "createForDragAndDrop = create None True"

text \<open>\<^verbatim>\<open>createForDragAndDrop(const DragData&)\<close>; the argument is \<^verbatim>\<open>dragData.platformData()\<close>.\<close>

definition createForDragAndDrop_DragData :: "QMimeData option \<Rightarrow> Pasteboard" where
  "createForDragAndDrop_DragData platformData = create platformData True"

definition clipboardMode :: "Pasteboard \<Rightarrow> Mode" where
  "clipboardMode p = (if m_selectionMode p then Selection else Clipboard)"

text \<open>
  \<^verbatim>\<open>writeSelection\<close>. \<open>markup\<close> is what \<^verbatim>\<open>createMarkup\<close> returned for the selected range.
  The result is the host clipboard; the instance is not changed.
\<close>

definition writeSelection ::
  "Platform \<Rightarrow> QString \<Rightarrow> bool \<Rightarrow> Editor \<Rightarrow> ShouldSerializeSelectedTextForDataTransfer \<Rightarrow>
   QClipboard \<Rightarrow> Pasteboard \<Rightarrow> QClipboard" where
  "writeSelection pl markup canSmartCopyOrDelete editor shouldSerialize h p =
     (let text0 = (if shouldSerialize = IncludeImageAltTextForDataTransfer
                   then selectedTextForDataTransfer editor else selectedText editor);
          text1 = replace_QChar 0xa0 (of_char CHR '' '') text0;
          md1 = setText text1 [];
          md2 = (if q_os_mac pl
                 then setData text_html
                        (toUtf8 pl
                          (fromLatin1 ''<html><head><meta http-equiv=\"Content-Type\" content=\"text/html; charset=utf-8\" /></head><body>''
                           @ markup @ fromLatin1 ''</body></html>'')) md1
                 else setHtml markup md1);
          md3 = (if canSmartCopyOrDelete then setData smartpaste [] md2 else md2)
      in setMimeData (Some md3) (clipboardMode p) h)"

definition canSmartReplace :: "QClipboard \<Rightarrow> Pasteboard \<Rightarrow> bool" where
  "canSmartReplace h p = (if hasFormat (mimeData h Clipboard) smartpaste then True else False)"

text \<open>\<^verbatim>\<open>read(PasteboardPlainText&)\<close>: the value stored into \<^verbatim>\<open>text.text\<close>.\<close>

definition read_PlainText :: "Platform \<Rightarrow> QClipboard \<Rightarrow> Pasteboard \<Rightarrow> QString" where
  "read_PlainText pl h p = mime_text pl (mimeData h (clipboardMode p))"

text \<open>
  \<^verbatim>\<open>documentFragment\<close>. The two fragment constructors of WebCore are parameters:
  \<open>fromMarkup\<close> is \<^verbatim>\<open>createFragmentFromMarkup\<close> on the frame's document, \<open>fromText\<close> is
  \<^verbatim>\<open>createFragmentFromText\<close> on the context range; \<open>None\<close> is the null fragment. The
  result pairs the fragment with the final value of the out-parameter
  \<^verbatim>\<open>chosePlainText\<close>.
\<close>

definition documentFragment ::
  "(QString \<Rightarrow> 'frag option) \<Rightarrow> (QString \<Rightarrow> 'frag option) \<Rightarrow> Platform \<Rightarrow> bool \<Rightarrow>
   QClipboard \<Rightarrow> Pasteboard \<Rightarrow> 'frag option \<times> bool" where
  "documentFragment fromMarkup fromText pl allowPlainText h p =
     (let md = mimeData h (clipboardMode p);
          rich = (if hasHtml md
                  then (let markup = html pl md
                        in if markup \<noteq> [] then fromMarkup markup else None)
                  else None)
      in case rich of
           Some fragment \<Rightarrow> (Some fragment, False)
         | None \<Rightarrow>
             if allowPlainText \<and> hasText md
             then (fromText (mime_text pl md), True)
             else (None, False))"

definition writePlainText ::
  "QString \<Rightarrow> SmartReplaceOption \<Rightarrow> QClipboard \<Rightarrow> Pasteboard \<Rightarrow> QClipboard" where
  "writePlainText txt smartReplaceOption h p =
     (let qtext = replace_QChar 0xa0 (of_char CHR '' '') txt;
          md1 = setText qtext [];
          md2 = (if smartReplaceOption = CanSmartReplace then setData smartpaste [] md1 else md1)
      in setMimeData (Some md2) (clipboardMode p) h)"

text \<open>
  \<^verbatim>\<open>write(const PasteboardURL&)\<close>: \<open>urlString\<close> is \<^verbatim>\<open>pasteboardURL.url.string()\<close> and
  \<open>url\<close> the same URL as a \<^verbatim>\<open>QUrl\<close>. The assertion that the URL is not empty is
  \<open>write_URL_assertion\<close>.
\<close>

definition write_URL_assertion :: "QString \<Rightarrow> bool" where
  "write_URL_assertion urlString = (urlString \<noteq> [])"

definition write_URL :: "QString \<Rightarrow> QUrl \<Rightarrow> QClipboard \<Rightarrow> Pasteboard \<Rightarrow> QClipboard" where
  "write_URL urlString url h p =
     (let md1 = setText urlString [];
          md2 = setUrls [url] md1
      in setMimeData (Some md2) (clipboardMode p) h)"

text \<open>
  \<^verbatim>\<open>writeImage\<close>: \<open>pixmap\<close> is the bitmap the element resolves to, \<open>None\<close> when the
  element has no image renderer, no cached image, a cached image in error or no bitmap
  for the current frame.
\<close>

definition writeImage :: "QPixmap option \<Rightarrow> QClipboard \<Rightarrow> Pasteboard \<Rightarrow> QClipboard" where
  "writeImage pixmap h p = (case pixmap of None \<Rightarrow> h | Some px \<Rightarrow> setPixmap px h)"

text \<open>
  \<^verbatim>\<open>readData\<close>, and the condition of its \<^verbatim>\<open>ASSERT\<close>, which a release build does not
  evaluate.
\<close>

definition readData_assertion :: "Pasteboard \<Rightarrow> bool" where
  "readData_assertion p = (\<not> (m_readableData p \<noteq> None \<and> m_writableData p \<noteq> None))"

definition readData :: "Pasteboard \<Rightarrow> QMimeData option" where
  "readData p = (if m_readableData p \<noteq> None then m_readableData p else m_writableData p)"

definition hasData :: "Pasteboard \<Rightarrow> bool" where
  "hasData p =
     (case readData p of
        None \<Rightarrow> False
      | Some d \<Rightarrow> length (formats d) > 0)"

text \<open>\<^verbatim>\<open>clear(const String&)\<close>.\<close>

definition clear_type :: "QString \<Rightarrow> QClipboard \<Rightarrow> Pasteboard \<Rightarrow> QClipboard \<times> Pasteboard" where
  "clear_type t h p =
     (let p1 = (case m_writableData p of
                  None \<Rightarrow> p
                | Some d \<Rightarrow>
                    (let d1 = removeFormat t d
                     in if formats d1 = []
                        then p\<lparr>m_writableData := None\<rparr>
                        else p\<lparr>m_writableData := Some d1\<rparr>));
          h1 = (if isForCopyAndPaste p1 then setMimeData (m_writableData p1) Clipboard h else h)
      in (h1, p1))"

text \<open>\<^verbatim>\<open>clear()\<close>.\<close>

definition clear_all :: "QClipboard \<Rightarrow> Pasteboard \<Rightarrow> QClipboard \<times> Pasteboard" where
  "clear_all h p =
     (let h1 = (if isForCopyAndPaste p then setMimeData None Clipboard h else h)
      in (h1, p\<lparr>m_writableData := None\<rparr>))"

definition readString :: "Platform \<Rightarrow> QString \<Rightarrow> Pasteboard \<Rightarrow> QString" where
  "readString pl t p =
     (case readData p of
        None \<Rightarrow> []
      | Some d \<Rightarrow>
          if isHtmlMimeType t \<and> hasHtml d then html pl d
          else if isTextMimeType t \<and> hasText d then mime_text pl d
          else codecUtf16_toUnicode pl (data pl d t))"

text \<open>
  The bytes \<^verbatim>\<open>reinterpret_cast<const char*>(data.characters16())\<close> exposes, of length
  \<^verbatim>\<open>data.length() * 2\<close>: each code unit as two bytes in the byte order of the machine.
  The string is taken in its 16-bit representation, the one \<^verbatim>\<open>characters16()\<close> is for.
\<close>

definition unit_bytes :: "bool \<Rightarrow> QChar \<Rightarrow> QByteArray" where
  "unit_bytes le c =
     (if le then [ucast c, ucast (drop_bit 8 c)] else [ucast (drop_bit 8 c), ucast c])"

fun characters16_bytes :: "bool \<Rightarrow> QString \<Rightarrow> QByteArray" where
  "characters16_bytes le [] = []"
| "characters16_bytes le (c # cs) = unit_bytes le c @ characters16_bytes le cs"

definition writeString :: "Platform \<Rightarrow> QString \<Rightarrow> QString \<Rightarrow> Pasteboard \<Rightarrow> Pasteboard" where
  "writeString pl t s p =
     (let w = (case m_writableData p of None \<Rightarrow> [] | Some d \<Rightarrow> d);
          w1 = (if isTextMimeType t then setText s w
                else if isHtmlMimeType t then setHtml s w
                else setData t (characters16_bytes (littleEndian pl) s) w)
      in p\<lparr>m_writableData := Some w1\<rparr>)"

text \<open>
  \<^verbatim>\<open>types\<close>: the loop adds each format to a \<^verbatim>\<open>ListHashSet\<close>, which keeps the first
  occurrence of an element at its place; \<^verbatim>\<open>copyToVector\<close> lists the set in that order.
\<close>

definition ListHashSet_add :: "QString \<Rightarrow> QString list \<Rightarrow> QString list" where
  "ListHashSet_add x result = (if x \<in> set result then result else result @ [x])"

fun types_loop :: "QString list \<Rightarrow> QString list \<Rightarrow> QString list" where
  "types_loop [] result = result"
| "types_loop (f # fs) result = types_loop fs (ListHashSet_add f result)"

definition types :: "Pasteboard \<Rightarrow> QString list" where
  "types p =
     (case readData p of
        None \<Rightarrow> []
      | Some d \<Rightarrow> types_loop (formats d) [])"

fun readFilenames_loop :: "Platform \<Rightarrow> QUrl list \<Rightarrow> QString list \<Rightarrow> QString list" where
  "readFilenames_loop pl [] fileList = fileList"
| "readFilenames_loop pl (url # rest) fileList =
     (if url_scheme url \<noteq> fromLatin1 ''file''
      then readFilenames_loop pl rest fileList
      else readFilenames_loop pl rest (fileList @ [toLocalFile pl url]))"

definition readFilenames :: "Platform \<Rightarrow> Pasteboard \<Rightarrow> QString list" where
  "readFilenames pl p =
     (case readData p of
        None \<Rightarrow> []
      | Some d \<Rightarrow> readFilenames_loop pl (urls pl d) [])"

text \<open>
  Modelled from the spec: \<^verbatim>\<open>clipboardData()\<close> is declared in \<^verbatim>\<open>Pasteboard.h\<close>, not in
  the file; "another instance's entire data snapshot" is taken to be the data that
  instance owns, its writable binding.
\<close>

definition clipboardData :: "Pasteboard \<Rightarrow> QMimeData option" where
  "clipboardData p = m_writableData p"

definition writePasteboard :: "Pasteboard \<Rightarrow> QClipboard \<Rightarrow> Pasteboard \<Rightarrow> QClipboard" where
  "writePasteboard sourcePasteboard h p = setMimeData (clipboardData sourcePasteboard) Clipboard h"

subsection \<open>Definitions used to state the properties\<close>

text \<open>
  The code units of a byte array read two bytes at a time in the given byte order
  (\<open>True\<close> is little-endian): the inverse of \<open>characters16_bytes\<close>. A trailing odd
  byte is dropped.
\<close>

fun utf16_units :: "bool \<Rightarrow> QByteArray \<Rightarrow> QString" where
  "utf16_units le (b0 # b1 # bs) =
     (if le then push_bit 8 (ucast b1) OR ucast b0 else push_bit 8 (ucast b0) OR ucast b1)
       # utf16_units le bs"
| "utf16_units le bs = []"

text \<open>
  A concrete platform for the closed examples: little-endian, not a Mac, a UTF-16 codec
  that reads the code units in machine order, a local path that is the rest of the URL.
  The conversions no example reaches return the empty value.
\<close>

definition example_platform :: Platform where
  "example_platform =
     \<lparr>q_os_mac = False, littleEndian = True,
      codecUtf16_toUnicode = utf16_units True,
      toUtf8 = (\<lambda>s. []),
      variantToString = (\<lambda>v. []),
      variantToByteArray = (\<lambda>v. []),
      variantToUrls = (\<lambda>v. []),
      toLocalFile = url_rest\<rparr>"

definition empty_clipboard :: QClipboard where
  "empty_clipboard = \<lparr>clipboardSlot = None, selectionSlot = None, imageSlot = None\<rparr>"

text \<open>The collection \<^verbatim>\<open>writeString\<close> writes into: the writable binding, or a new one.\<close>

definition writableOrNew :: "Pasteboard \<Rightarrow> QMimeData" where
  "writableOrNew p = (case m_writableData p of None \<Rightarrow> [] | Some d \<Rightarrow> d)"

text \<open>The string \<^verbatim>\<open>hello\<close>, U+00A0, \<^verbatim>\<open>world\<close>.\<close>

definition hello_nbsp_world :: QString where
  "hello_nbsp_world = fromLatin1 ''hello'' @ [0xa0] @ fromLatin1 ''world''"

text \<open>Type identifiers and payloads of the closed examples.\<close>

definition x_custom :: QString where
  "x_custom = fromLatin1 ''application/x-custom''"

definition html_payload :: QMimeData where
  "html_payload = [(fromLatin1 ''text/html'', VString (fromLatin1 ''<b>x</b>''))]"

definition abc_payload :: QMimeData where
  "abc_payload = [(fromLatin1 ''text/plain'', VString (fromLatin1 ''abc''))]"

definition file_and_https :: QMimeData where
  "file_and_https =
     setUrls [\<lparr>url_scheme = fromLatin1 ''file'', url_rest = fromLatin1 ''/tmp/a.txt''\<rparr>,
              \<lparr>url_scheme = fromLatin1 ''https'', url_rest = fromLatin1 ''//example.org/''\<rparr>] []"

definition clipboard_with :: "QMimeData \<Rightarrow> QClipboard" where
  "clipboard_with d = \<lparr>clipboardSlot = Some d, selectionSlot = None, imageSlot = None\<rparr>"

text \<open>
  A drag-and-drop instance bound to a drag payload after one \<^verbatim>\<open>writeString\<close> under a
  custom type, and a copy/paste instance whose writable binding holds a text entry and a
  custom entry.
\<close>

definition bound_drag_with_custom :: Pasteboard where
  "bound_drag_with_custom =
     writeString example_platform x_custom (fromLatin1 ''a'')
       (createForDragAndDrop_DragData (Some abc_payload))"

definition copy_with_two :: Pasteboard where
  "copy_with_two =
     \<lparr>m_selectionMode = False, m_readableData = None,
      m_writableData =
        Some [(text_plain, VString (fromLatin1 ''abc'')), (x_custom, VByteArray [0x61, 0])],
      m_isForDragAndDrop = False\<rparr>"

text \<open>
  Document fragments for the closed examples: a fragment remembers what it was built
  from.
\<close>

datatype Fragment = MarkupFragment QString | TextFragment QString

section \<open>Properties\<close>

subsection \<open>Entries of a collection\<close>

lemma map_of_removeFormat_same: "map_of (removeFormat t d) t = None"
  by (induction d) (auto simp: removeFormat_def)

lemma map_of_removeFormat_other: "t' \<noteq> t \<Longrightarrow> map_of (removeFormat t d) t' = map_of d t'"
  by (induction d) (auto simp: removeFormat_def)

lemma map_of_setVariant_same: "map_of (setVariant t v d) t = Some v"
  by (simp add: setVariant_def map_add_def map_of_removeFormat_same)

lemma map_of_setVariant_other: "t' \<noteq> t \<Longrightarrow> map_of (setVariant t v d) t' = map_of d t'"
  by (auto simp: setVariant_def map_add_def map_of_removeFormat_other split: option.splits)

lemma hasFormat_setVariant: "hasFormat (setVariant t v d) t' = (t' = t \<or> hasFormat d t')"
  by (auto simp: hasFormat_def setVariant_def removeFormat_def formats_def)

lemma privileged_types_distinct:
  "smartpaste \<noteq> text_plain" "smartpaste \<noteq> text_html" "text_html \<noteq> text_plain"
  by (simp_all add: text_plain_def text_html_def smartpaste_def fromLatin1_def)

lemma mimeData_setMimeData: "mimeData (setMimeData (Some d) m h) m = d"
  by (cases m) (simp_all add: mimeData_def setMimeData_def slot_def)

lemma map_of_setHtml_text: "map_of (setHtml s d) text_plain = map_of d text_plain"
  using privileged_types_distinct by (simp add: setHtml_def map_of_setVariant_other)

lemma map_of_setData_other: "t' \<noteq> t \<Longrightarrow> map_of (setData t b d) t' = map_of d t'"
  by (simp add: setData_def map_of_setVariant_other)

lemma hasFormat_setData_same: "hasFormat (setData t b d) t"
  by (simp add: setData_def hasFormat_setVariant)

subsection \<open>The binding invariant\<close>

text \<open>
  The binding invariant, not both a readable and a writable binding, is the condition
  \<open>readData_assertion\<close> that \<^verbatim>\<open>readData\<close> asserts. Every constructor leaves the
  writable binding null, so every new instance satisfies it; the two \<^verbatim>\<open>clear\<close>
  operations keep it; the operations that only read, or only write to the host, change
  no member of the instance. \<^verbatim>\<open>writeString\<close> keeps it exactly on an instance that has
  no readable binding.
\<close>

lemma create_invariant: "readData_assertion (create r dnd)"
  by (simp add: readData_assertion_def create_def)

lemma clear_type_invariant: "readData_assertion p \<Longrightarrow> readData_assertion (snd (clear_type t h p))"
  by (auto simp: readData_assertion_def clear_type_def Let_def split: option.splits)

lemma clear_all_invariant: "readData_assertion (snd (clear_all h p))"
  by (simp add: readData_assertion_def clear_all_def Let_def)

lemma writeString_invariant_iff:
  "readData_assertion (writeString pl t s p) \<longleftrightarrow> m_readableData p = None"
  by (simp add: readData_assertion_def writeString_def Let_def)

text \<open>
  C1. The claim: no instance ever holds a readable and a writable binding at the same
  time, whatever the operations applied to it, \<^verbatim>\<open>writeString\<close> in particular. The code
  at an instance bound to a drag payload: \<^verbatim>\<open>writeString\<close> allocates the writable
  binding without looking at the readable one, the instance then holds both, and the
  condition asserted by \<^verbatim>\<open>readData\<close> is false.
\<close>

theorem C1_writeString_on_readable_instance:
  "m_readableData
      (writeString example_platform (fromLatin1 ''text/plain'') (fromLatin1 ''x'')
        (createForDragAndDrop_DragData
          (Some [(fromLatin1 ''text/plain'', VString (fromLatin1 ''abc''))])))
     \<noteq> None
   \<and> m_writableData
      (writeString example_platform (fromLatin1 ''text/plain'') (fromLatin1 ''x'')
        (createForDragAndDrop_DragData
          (Some [(fromLatin1 ''text/plain'', VString (fromLatin1 ''abc''))])))
     \<noteq> None
   \<and> \<not> readData_assertion
      (writeString example_platform (fromLatin1 ''text/plain'') (fromLatin1 ''x'')
        (createForDragAndDrop_DragData
          (Some [(fromLatin1 ''text/plain'', VString (fromLatin1 ''abc''))])))"
  by (simp add: writeString_def Let_def createForDragAndDrop_DragData_def create_def
      readData_assertion_def)

subsection \<open>Plain text written to the host\<close>

lemma map_of_writePlainText:
  "map_of (mimeData (writePlainText txt opt h p) (clipboardMode p)) text_plain =
     Some (VString (replace_QChar 0xa0 0x20 txt))"
  using privileged_types_distinct
  by (simp add: writePlainText_def Let_def mimeData_setMimeData map_of_setData_other
      setText_def map_of_setVariant_same)

lemma map_of_writeSelection:
  "map_of (mimeData (writeSelection pl markup smart editor should h p) (clipboardMode p))
      text_plain =
     Some (VString (replace_QChar 0xa0 0x20
        (if should = IncludeImageAltTextForDataTransfer
         then selectedTextForDataTransfer editor else selectedText editor)))"
  using privileged_types_distinct
  by (simp add: writeSelection_def Let_def mimeData_setMimeData map_of_setData_other
      map_of_setHtml_text setText_def map_of_setVariant_same)

lemma readString_createPrivate: "readString pl t createPrivate = []"
  by (simp add: readString_def readData_def createPrivate_def create_def)

lemma canSmartReplace_writePlainText:
  "\<not> m_selectionMode p \<Longrightarrow> canSmartReplace (writePlainText txt CanSmartReplace h p) p"
  by (simp add: canSmartReplace_def writePlainText_def Let_def clipboardMode_def
      mimeData_setMimeData hasFormat_setData_same)

lemma hello_replaced: "replace_QChar 0xa0 0x20 hello_nbsp_world = fromLatin1 ''hello world''"
  by (simp add: replace_QChar_def hello_nbsp_world_def fromLatin1_def)

text \<open>
  C2, as stated: on an instance made by \<^verbatim>\<open>createPrivate\<close>, after \<^verbatim>\<open>writePlainText\<close> of
  \<^verbatim>\<open>hello\<close>, U+00A0, \<^verbatim>\<open>world\<close> with smart replace, \<^verbatim>\<open>readString("text/plain")\<close> returns
  \<^verbatim>\<open>"hello world"\<close> and \<^verbatim>\<open>canSmartReplace\<close> returns true. It fails: \<^verbatim>\<open>writePlainText\<close>
  hands a new collection to the host and changes no member of the instance, and
  \<^verbatim>\<open>readString\<close> reads the binding of the instance, which a private instance does not
  have.
\<close>

theorem C2_readString_after_writePlainText_counterexample:
  "\<not> (readString example_platform (fromLatin1 ''text/plain'') createPrivate
         = fromLatin1 ''hello world''
       \<and> canSmartReplace
           (writePlainText hello_nbsp_world CanSmartReplace empty_clipboard createPrivate)
           createPrivate)"
  by (simp add: readString_createPrivate fromLatin1_def)

text \<open>
  C2, amended: after that write, on any platform and whatever the host clipboard held,
  the plain-text read operation (\<^verbatim>\<open>read\<close>) on the instance returns \<^verbatim>\<open>"hello world"\<close> from
  the host clipboard, \<^verbatim>\<open>canSmartReplace\<close> returns true, and \<^verbatim>\<open>readString("text/plain")\<close>
  on the instance returns the empty string.
\<close>

theorem C2_private_write_reaches_host_only:
  "read_PlainText pl (writePlainText hello_nbsp_world CanSmartReplace h createPrivate)
      createPrivate
     = fromLatin1 ''hello world''
   \<and> canSmartReplace (writePlainText hello_nbsp_world CanSmartReplace h createPrivate)
      createPrivate
   \<and> readString pl (fromLatin1 ''text/plain'') createPrivate = []"
proof -
  have sel: "\<not> m_selectionMode createPrivate"
    by (simp add: createPrivate_def create_def)
  have "read_PlainText pl (writePlainText hello_nbsp_world CanSmartReplace h createPrivate)
          createPrivate
        = replace_QChar 0xa0 0x20 hello_nbsp_world"
    by (simp add: read_PlainText_def mime_text_def map_of_writePlainText)
  then show ?thesis
    using canSmartReplace_writePlainText [OF sel]
    by (simp add: hello_replaced readString_createPrivate)
qed

theorem C2_private_write_reaches_host_only_witness:
  "read_PlainText example_platform
      (writePlainText hello_nbsp_world CanSmartReplace empty_clipboard createPrivate)
      createPrivate
     = fromLatin1 ''hello world''
   \<and> canSmartReplace
      (writePlainText hello_nbsp_world CanSmartReplace empty_clipboard createPrivate)
      createPrivate"
  using C2_private_write_reaches_host_only [of example_platform empty_clipboard] by simp

text \<open>
  C7. Whatever the input, the text entry of the collection that \<^verbatim>\<open>writePlainText\<close>
  hands to the host is the input with every U+00A0 replaced by U+0020, and holds no
  U+00A0; the same for \<^verbatim>\<open>writeSelection\<close> and the selected text it serializes.
\<close>

theorem C7_text_entry_has_no_nbsp:
  "mime_text pl (mimeData (writePlainText txt opt h p) (clipboardMode p)) =
     map (\<lambda>c. if c = 0xa0 then 0x20 else c) txt
   \<and> 0xa0 \<notin> set (mime_text pl (mimeData (writePlainText txt opt h p) (clipboardMode p)))
   \<and> mime_text pl
        (mimeData (writeSelection pl markup smart editor should h p) (clipboardMode p)) =
     map (\<lambda>c. if c = 0xa0 then 0x20 else c)
       (if should = IncludeImageAltTextForDataTransfer
        then selectedTextForDataTransfer editor else selectedText editor)
   \<and> 0xa0 \<notin> set (mime_text pl
         (mimeData (writeSelection pl markup smart editor should h p) (clipboardMode p)))"
  by (auto simp add: mime_text_def map_of_writePlainText map_of_writeSelection
      replace_QChar_def)

theorem C7_text_entry_has_no_nbsp_witness:
  "mime_text example_platform
      (mimeData (writePlainText hello_nbsp_world CannotSmartReplace empty_clipboard
         (createForGlobalSelection empty_clipboard)) Selection)
     = fromLatin1 ''hello world''"
  using C7_text_entry_has_no_nbsp [of example_platform hello_nbsp_world CannotSmartReplace
      empty_clipboard "createForGlobalSelection empty_clipboard"]
  by (simp add: clipboardMode_def createForGlobalSelection_def hello_nbsp_world_def
      fromLatin1_def)

subsection \<open>The dispatch on the type identifier\<close>

lemma startsWith_iff: "startsWith s p \<longleftrightarrow> (\<exists>r. s = p @ r)"
  by (induction s p rule: startsWith.induct) auto

lemma isTextMimeType_iff:
  "isTextMimeType t \<longleftrightarrow>
     t = fromLatin1 ''text/plain'' \<or> (\<exists>r. t = fromLatin1 ''text/plain;'' @ r)"
  by (simp add: isTextMimeType_def startsWith_iff text_plain_def)

lemma isHtmlMimeType_iff:
  "isHtmlMimeType t \<longleftrightarrow>
     t = fromLatin1 ''text/html'' \<or> (\<exists>r. t = fromLatin1 ''text/html;'' @ r)"
  by (simp add: isHtmlMimeType_def startsWith_iff text_html_def)

lemma text_not_html: "isTextMimeType t \<Longrightarrow> \<not> isHtmlMimeType t"
  by (auto simp: isTextMimeType_iff isHtmlMimeType_iff fromLatin1_def)

lemma readString_html_path:
  "isHtmlMimeType t \<Longrightarrow> readData p = Some d \<Longrightarrow> hasHtml d \<Longrightarrow> readString pl t p = html pl d"
  by (simp add: readString_def)

lemma readString_text_path:
  "isTextMimeType t \<Longrightarrow> readData p = Some d \<Longrightarrow> hasText d \<Longrightarrow>
   readString pl t p = mime_text pl d"
  by (simp add: readString_def text_not_html)

lemma writeString_text_path:
  "isTextMimeType t \<Longrightarrow>
   m_writableData (writeString pl t s p) = Some (setText s (writableOrNew p))"
  by (simp add: writeString_def writableOrNew_def Let_def)

lemma writeString_html_path:
  "isHtmlMimeType t \<Longrightarrow>
   m_writableData (writeString pl t s p) = Some (setHtml s (writableOrNew p))"
  using text_not_html [of t] by (auto simp add: writeString_def writableOrNew_def Let_def)

lemma html_charset_is_html: "isHtmlMimeType (fromLatin1 ''text/html; charset=utf-8'')"
  by (simp add: isHtmlMimeType_def fromLatin1_def)

lemma html_is_html: "isHtmlMimeType (fromLatin1 ''text/html'')"
  by (simp add: isHtmlMimeType_def text_html_def)

lemma readString_raw_path:
  "\<not> isTextMimeType t \<Longrightarrow> \<not> isHtmlMimeType t \<Longrightarrow>
   readString pl t p =
     (case readData p of None \<Rightarrow> [] | Some d \<Rightarrow> codecUtf16_toUnicode pl (data pl d t))"
  by (simp add: readString_def split: option.splits)

lemma writeString_raw_path:
  "\<not> isTextMimeType t \<Longrightarrow> \<not> isHtmlMimeType t \<Longrightarrow>
   m_writableData (writeString pl t s p) =
     Some (setData t (characters16_bytes (littleEndian pl) s) (writableOrNew p))"
  by (simp add: writeString_def writableOrNew_def Let_def)

text \<open>
  C4. A type identifier is treated as plain text exactly when it is \<^verbatim>\<open>text/plain\<close> or
  begins with \<^verbatim>\<open>text/plain;\<close>, as HTML exactly when it is \<^verbatim>\<open>text/html\<close> or begins with
  \<^verbatim>\<open>text/html;\<close>. \<^verbatim>\<open>readString\<close> of an HTML identifier returns the rich-text slot of a
  binding that has one, of a plain-text identifier the text slot of a binding that has
  one, and of any other identifier the decoded raw entry; \<^verbatim>\<open>writeString\<close> sets the
  text slot for a plain-text identifier, the rich-text slot for an HTML one and a raw
  entry for any other. In particular \<^verbatim>\<open>readString("text/html; charset=utf-8")\<close> and
  \<^verbatim>\<open>readString("text/html")\<close> both return the rich-text slot of such a binding.
\<close>

theorem C4_privileged_type_dispatch:
  "(isTextMimeType t \<longleftrightarrow>
      t = fromLatin1 ''text/plain'' \<or> (\<exists>r. t = fromLatin1 ''text/plain;'' @ r))
   \<and> (isHtmlMimeType t \<longleftrightarrow>
      t = fromLatin1 ''text/html'' \<or> (\<exists>r. t = fromLatin1 ''text/html;'' @ r))
   \<and> (isHtmlMimeType t \<and> readData p = Some d \<and> hasHtml d \<longrightarrow>
        readString pl t p = html pl d)
   \<and> (isTextMimeType t \<and> readData p = Some d \<and> hasText d \<longrightarrow>
        readString pl t p = mime_text pl d)
   \<and> (\<not> isTextMimeType t \<and> \<not> isHtmlMimeType t \<and> readData p = Some d \<longrightarrow>
        readString pl t p = codecUtf16_toUnicode pl (data pl d t))
   \<and> (isTextMimeType t \<longrightarrow>
        m_writableData (writeString pl t s p) = Some (setText s (writableOrNew p)))
   \<and> (isHtmlMimeType t \<longrightarrow>
        m_writableData (writeString pl t s p) = Some (setHtml s (writableOrNew p)))
   \<and> (\<not> isTextMimeType t \<and> \<not> isHtmlMimeType t \<longrightarrow>
        m_writableData (writeString pl t s p) =
          Some (setData t (characters16_bytes (littleEndian pl) s) (writableOrNew p)))
   \<and> (readData p = Some d \<and> hasHtml d \<longrightarrow>
        readString pl (fromLatin1 ''text/html; charset=utf-8'') p = html pl d
        \<and> readString pl (fromLatin1 ''text/html'') p = html pl d)"
proof -
  have raw: "\<not> isTextMimeType t \<and> \<not> isHtmlMimeType t \<and> readData p = Some d \<longrightarrow>
        readString pl t p = codecUtf16_toUnicode pl (data pl d t)"
    by (simp add: readString_raw_path)
  show ?thesis
    using isTextMimeType_iff [of t] isHtmlMimeType_iff [of t]
      readString_html_path [of t p d pl] readString_text_path [of t p d pl]
      writeString_text_path [of t pl s p] writeString_html_path [of t pl s p]
      writeString_raw_path [of t pl s p] raw
      readString_html_path [OF html_charset_is_html, of p d pl]
      readString_html_path [OF html_is_html, of p d pl]
    by blast
qed

theorem C4_privileged_type_dispatch_witness:
  "isHtmlMimeType (fromLatin1 ''text/html; charset=utf-8'')
   \<and> readData (createForDragAndDrop_DragData (Some html_payload)) = Some html_payload
   \<and> hasHtml html_payload
   \<and> readString example_platform (fromLatin1 ''text/html; charset=utf-8'')
        (createForDragAndDrop_DragData (Some html_payload)) = fromLatin1 ''<b>x</b>''
   \<and> readString example_platform (fromLatin1 ''text/html'')
        (createForDragAndDrop_DragData (Some html_payload)) = fromLatin1 ''<b>x</b>''
   \<and> \<not> isHtmlMimeType (fromLatin1 ''text/htmlx'')
   \<and> isTextMimeType (fromLatin1 ''text/plain;charset=utf-8'')
   \<and> \<not> isTextMimeType (fromLatin1 ''text/plainer'')"
proof -
  have rd: "readData (createForDragAndDrop_DragData (Some html_payload)) = Some html_payload"
    by (simp add: readData_def createForDragAndDrop_DragData_def create_def)
  have hh: "hasHtml html_payload"
    by (simp add: hasHtml_def hasFormat_def formats_def html_payload_def text_html_def)
  have hv: "html example_platform html_payload = fromLatin1 ''<b>x</b>''"
    by (simp add: html_def html_payload_def text_html_def)
  have a: "isHtmlMimeType (fromLatin1 ''text/html; charset=utf-8'')"
    by (simp add: isHtmlMimeType_def fromLatin1_def)
  have b: "\<not> isHtmlMimeType (fromLatin1 ''text/htmlx'')"
    by (simp add: isHtmlMimeType_def text_html_def fromLatin1_def)
  have c: "isTextMimeType (fromLatin1 ''text/plain;charset=utf-8'')"
    by (simp add: isTextMimeType_def fromLatin1_def)
  have d: "\<not> isTextMimeType (fromLatin1 ''text/plainer'')"
    by (simp add: isTextMimeType_def text_plain_def fromLatin1_def)
  show ?thesis
    using C4_privileged_type_dispatch
      [of "fromLatin1 ''text/html; charset=utf-8''"
          "createForDragAndDrop_DragData (Some html_payload)" html_payload example_platform]
      rd hh hv a b c d
    by simp
qed

subsection \<open>The round trip of a raw typed string\<close>

lemma hi_lo:
  "push_bit 8 (ucast (ucast (drop_bit 8 c) :: 8 word)) OR ucast (ucast c :: 8 word)
     = (c :: 16 word)"
  by (rule bit_word_eqI) (auto simp add: bit_simps)

text \<open>
  The byte image \<^verbatim>\<open>writeString\<close> stores holds two bytes for each code unit, and its
  code units read in machine order are the string. A decoder that takes the first two
  bytes for a byte-order mark does not return them as a code unit; which decoder the
  host has is a parameter.
\<close>

lemma utf16_units_characters16_bytes: "utf16_units le (characters16_bytes le s) = s"
  by (cases le; induction s) (simp_all add: unit_bytes_def hi_lo)

lemma length_characters16_bytes: "length (characters16_bytes le s) = 2 * length s"
  by (induction s) (simp_all add: unit_bytes_def)

lemma data_setData_same: "data pl (setData t b d) t = b"
  by (simp add: data_def setData_def map_of_setVariant_same)

lemma readString_writeString_raw:
  assumes "m_readableData p = None" "\<not> isTextMimeType t" "\<not> isHtmlMimeType t"
  shows "readString pl t (writeString pl t s p) =
         codecUtf16_toUnicode pl (characters16_bytes (littleEndian pl) s)"
  using assms
  by (simp add: readString_def readData_def writeString_def Let_def data_setData_same)

lemma x_custom_not_privileged:
  "\<not> isTextMimeType x_custom" "\<not> isHtmlMimeType x_custom" "x_custom \<noteq> text_plain"
  by (simp_all add: isTextMimeType_def isHtmlMimeType_def x_custom_def text_plain_def
      text_html_def fromLatin1_def)

lemma bound_drag_with_custom_eval:
  "bound_drag_with_custom =
     \<lparr>m_selectionMode = False, m_readableData = Some abc_payload,
      m_writableData = Some [(x_custom, VByteArray [0x61, 0])],
      m_isForDragAndDrop = True\<rparr>"
  using x_custom_not_privileged
  by (simp add: bound_drag_with_custom_def writeString_def Let_def
      createForDragAndDrop_DragData_def create_def setData_def setVariant_def removeFormat_def
      example_platform_def unit_bytes_def fromLatin1_def)

text \<open>
  On an instance that has no readable binding, with a decoder that reads the code units
  in machine order, the round trip is exact for every string and every type identifier
  that is neither a plain-text nor an HTML one.
\<close>

lemma raw_string_round_trip_without_readable_binding:
  assumes "m_readableData p = None" and "\<not> isTextMimeType t" and "\<not> isHtmlMimeType t"
    and "codecUtf16_toUnicode pl = utf16_units (littleEndian pl)"
  shows "readString pl t (writeString pl t s p) = s"
  using readString_writeString_raw [OF assms(1,2,3), of pl s] assms(4)
  by (simp add: utf16_units_characters16_bytes)

text \<open>
  C3. The claim: for every string \<open>s\<close> and every type identifier \<open>t\<close> that is neither a
  plain-text nor an HTML identifier, \<^verbatim>\<open>writeString(t, s)\<close> followed by \<^verbatim>\<open>readString(t)\<close>
  on the same instance returns \<open>s\<close>. The code at an instance bound to a drag payload:
  \<^verbatim>\<open>writeString\<close> stores the string in a new writable binding beside the readable one,
  the condition asserted by \<^verbatim>\<open>readData\<close> is false, and \<^verbatim>\<open>readString\<close> reads the
  readable binding, which has no entry of that type, and returns the empty string. The
  same write and read on a drag-and-drop instance without a payload return the string.
\<close>

theorem C3_round_trip_lost_on_readable_instance:
  "\<not> isTextMimeType x_custom \<and> \<not> isHtmlMimeType x_custom
   \<and> bound_drag_with_custom =
       writeString example_platform x_custom (fromLatin1 ''a'')
         (createForDragAndDrop_DragData (Some abc_payload))
   \<and> \<not> readData_assertion bound_drag_with_custom
   \<and> readString example_platform x_custom bound_drag_with_custom = []
   \<and> readString example_platform x_custom
        (writeString example_platform x_custom (fromLatin1 ''a'') createForDragAndDrop)
       = fromLatin1 ''a''"
proof -
  have a: "\<not> readData_assertion bound_drag_with_custom"
    by (simp add: bound_drag_with_custom_eval readData_assertion_def)
  have b: "readString example_platform x_custom bound_drag_with_custom = []"
    using x_custom_not_privileged
    by (simp add: bound_drag_with_custom_eval readString_def readData_def data_def
        abc_payload_def x_custom_def example_platform_def fromLatin1_def)
  have n: "m_readableData createForDragAndDrop = None"
    by (simp add: createForDragAndDrop_def create_def)
  have c: "readString example_platform x_custom
        (writeString example_platform x_custom (fromLatin1 ''a'') createForDragAndDrop)
       = fromLatin1 ''a''"
    by (rule raw_string_round_trip_without_readable_binding
        [OF n x_custom_not_privileged(1) x_custom_not_privileged(2)])
      (simp add: example_platform_def)
  show ?thesis
    using a b c x_custom_not_privileged by (simp add: bound_drag_with_custom_def)
qed

subsection \<open>Clearing one type\<close>

lemma formats_removeFormat: "formats (removeFormat t d) = filter (\<lambda>f. f \<noteq> t) (formats d)"
  by (induction d) (simp_all add: formats_def removeFormat_def)

lemma slot_setMimeData: "slot (setMimeData src m h) m = src"
  by (cases m) (simp_all add: slot_def setMimeData_def)

text \<open>
  On an instance that has no readable binding, \<^verbatim>\<open>clear(type)\<close> that removes the last
  type identifier of the writable binding leaves no binding at all.
\<close>

lemma clear_last_type_without_readable_binding:
  assumes "m_readableData p = None" and "m_writableData p = Some d"
    and "formats (removeFormat t d) = []"
  shows "hasData (snd (clear_type t h p)) = False
         \<and> types (snd (clear_type t h p)) = []
         \<and> m_writableData (snd (clear_type t h p)) = None"
  using assms
  by (simp add: clear_type_def Let_def hasData_def types_def readData_def)

text \<open>
  C5. The claim: on every drag-and-drop instance that holds a writable binding, when
  \<^verbatim>\<open>clear(type)\<close> removes the last type identifier of the binding, \<^verbatim>\<open>hasData()\<close> is
  false and \<^verbatim>\<open>types()\<close> is empty afterwards. The code at a drag-and-drop instance bound
  to a drag payload with a text entry, after \<^verbatim>\<open>writeString\<close> under a custom type: the
  writable binding holds that one type, \<^verbatim>\<open>clear\<close> of it drops the writable binding, and
  \<^verbatim>\<open>hasData()\<close> and \<^verbatim>\<open>types()\<close> then answer from the readable binding: true, and
  \<^verbatim>\<open>text/plain\<close>.
\<close>

theorem C5_readable_binding_survives_clear:
  "isForDragAndDrop bound_drag_with_custom
   \<and> m_writableData bound_drag_with_custom = Some [(x_custom, VByteArray [0x61, 0])]
   \<and> formats (removeFormat x_custom [(x_custom, VByteArray [0x61, 0])]) = []
   \<and> m_writableData (snd (clear_type x_custom empty_clipboard bound_drag_with_custom)) = None
   \<and> hasData (snd (clear_type x_custom empty_clipboard bound_drag_with_custom)) = True
   \<and> types (snd (clear_type x_custom empty_clipboard bound_drag_with_custom)) = [text_plain]"
proof -
  have g: "snd (clear_type x_custom empty_clipboard bound_drag_with_custom) =
      \<lparr>m_selectionMode = False, m_readableData = Some abc_payload,
       m_writableData = None, m_isForDragAndDrop = True\<rparr>"
    by (simp add: bound_drag_with_custom_eval clear_type_def Let_def removeFormat_def
        formats_def)
  have f: "formats abc_payload = [text_plain]"
    by (simp add: formats_def abc_payload_def text_plain_def)
  have a: "isForDragAndDrop bound_drag_with_custom"
    by (simp add: bound_drag_with_custom_eval isForDragAndDrop_def)
  have b: "m_writableData bound_drag_with_custom = Some [(x_custom, VByteArray [0x61, 0])]"
    by (simp add: bound_drag_with_custom_eval)
  have c: "formats (removeFormat x_custom [(x_custom, VByteArray [0x61, 0])]) = []"
    by (simp add: formats_def removeFormat_def)
  have d: "hasData (snd (clear_type x_custom empty_clipboard bound_drag_with_custom)) = True"
    by (simp add: g hasData_def readData_def f)
  have e: "types (snd (clear_type x_custom empty_clipboard bound_drag_with_custom))
      = [text_plain]"
    by (simp add: g types_def readData_def f ListHashSet_add_def)
  show ?thesis
    using a b c d e by (simp add: g)
qed

text \<open>
  C6. On a copy/paste instance, whatever it holds, \<^verbatim>\<open>clear(type)\<close> ends by handing the
  writable binding, null or not, to the main target of the host clipboard: afterwards
  that target holds the writable binding of the instance, and its type identifiers are
  those of the binding, which are those the binding had before without \<open>type\<close>.
\<close>

theorem C6_clear_type_pushes_binding_to_host:
  assumes "isForCopyAndPaste p"
  shows "slot (fst (clear_type t h p)) Clipboard = m_writableData (snd (clear_type t h p))
         \<and> formats (mimeData (fst (clear_type t h p)) Clipboard) =
             (case m_writableData (snd (clear_type t h p)) of
                None \<Rightarrow> [] | Some d \<Rightarrow> formats d)
         \<and> formats (mimeData (fst (clear_type t h p)) Clipboard) =
             filter (\<lambda>f. f \<noteq> t)
               (case m_writableData p of None \<Rightarrow> [] | Some d \<Rightarrow> formats d)"
proof -
  have push: "fst (clear_type t h p) =
      setMimeData (m_writableData (snd (clear_type t h p))) Clipboard h"
    using assms
    by (simp add: clear_type_def Let_def isForCopyAndPaste_def split: option.splits)
  have s: "slot (fst (clear_type t h p)) Clipboard = m_writableData (snd (clear_type t h p))"
    by (subst push) (rule slot_setMimeData)
  have w: "(case m_writableData (snd (clear_type t h p)) of
              None \<Rightarrow> [] | Some d \<Rightarrow> formats d)
      = filter (\<lambda>f. f \<noteq> t) (case m_writableData p of None \<Rightarrow> [] | Some d \<Rightarrow> formats d)"
    by (auto simp add: clear_type_def Let_def formats_removeFormat split: option.splits)
  have m: "formats (mimeData (fst (clear_type t h p)) Clipboard) =
      (case m_writableData (snd (clear_type t h p)) of None \<Rightarrow> [] | Some d \<Rightarrow> formats d)"
    by (simp add: mimeData_def s formats_def split: option.splits)
  show ?thesis using s m w by simp
qed

lemma copy_with_two_reached:
  "writeString example_platform x_custom (fromLatin1 ''a'')
     (writeString example_platform text_plain (fromLatin1 ''abc'') createPrivate)
   = copy_with_two"
proof -
  have d: "isTextMimeType text_plain"
    by (simp add: isTextMimeType_def)
  show ?thesis
    using x_custom_not_privileged d
    by (simp add: copy_with_two_def writeString_def Let_def createPrivate_def
        create_def setData_def setText_def setVariant_def removeFormat_def
        example_platform_def unit_bytes_def fromLatin1_def)
qed

theorem C6_clear_type_pushes_binding_to_host_witness:
  "isForCopyAndPaste copy_with_two
   \<and> formats (mimeData (fst (clear_type text_plain empty_clipboard copy_with_two)) Clipboard)
       = [x_custom]
   \<and> slot (fst (clear_type x_custom empty_clipboard
        (snd (clear_type text_plain empty_clipboard copy_with_two)))) Clipboard = None"
proof -
  have a: "isForCopyAndPaste copy_with_two"
    by (simp add: isForCopyAndPaste_def copy_with_two_def)
  have e: "x_custom \<noteq> text_plain"
    by (rule x_custom_not_privileged(3))
  have f: "formats (mimeData (fst (clear_type text_plain empty_clipboard copy_with_two))
      Clipboard) = [x_custom]"
  proof -
    have w: "m_writableData copy_with_two =
        Some [(text_plain, VString (fromLatin1 ''abc'')), (x_custom, VByteArray [0x61, 0])]"
      by (simp add: copy_with_two_def)
    have fs: "formats [(text_plain, VString (fromLatin1 ''abc'')),
                       (x_custom, VByteArray [0x61, 0])]
        = [text_plain, x_custom]"
      by (simp add: formats_def)
    show ?thesis
      using C6_clear_type_pushes_binding_to_host
          [OF a, of text_plain empty_clipboard, THEN conjunct2, THEN conjunct2] e
      by (simp add: w fs)
  qed
  have g: "snd (clear_type text_plain empty_clipboard copy_with_two) =
     copy_with_two\<lparr>m_writableData := Some [(x_custom, VByteArray [0x61, 0])]\<rparr>"
    using e by (simp add: clear_type_def Let_def copy_with_two_def removeFormat_def formats_def)
  have h: "slot (fst (clear_type x_custom empty_clipboard
        (snd (clear_type text_plain empty_clipboard copy_with_two)))) Clipboard = None"
    by (simp add: g clear_type_def Let_def copy_with_two_def removeFormat_def formats_def
        isForCopyAndPaste_def slot_setMimeData)
  show ?thesis using a f h by simp
qed

subsection \<open>File names\<close>

lemma readFilenames_loop_eq:
  "readFilenames_loop pl us fileList =
     fileList @ map (toLocalFile pl) (filter (\<lambda>u. url_scheme u = fromLatin1 ''file'') us)"
  by (induction us arbitrary: fileList) simp_all

text \<open>
  C9. \<^verbatim>\<open>readFilenames\<close> returns the local paths of the URLs of the active binding's URL
  list whose scheme is \<^verbatim>\<open>file\<close>, in the order of the list, and nothing for the other
  URLs; with no binding it returns the empty list.
\<close>

theorem C9_readFilenames_file_urls_only:
  "readFilenames pl p =
     (case readData p of
        None \<Rightarrow> []
      | Some d \<Rightarrow>
          map (toLocalFile pl)
            (filter (\<lambda>u. url_scheme u = fromLatin1 ''file'') (urls pl d)))"
  by (simp add: readFilenames_def readFilenames_loop_eq split: option.splits)

theorem C9_readFilenames_file_urls_only_witness:
  "readFilenames example_platform (createForDragAndDrop_DragData (Some file_and_https))
     = [fromLatin1 ''/tmp/a.txt'']
   \<and> readFilenames example_platform createPrivate = []"
proof -
  have u: "urls example_platform file_and_https =
      [\<lparr>url_scheme = fromLatin1 ''file'', url_rest = fromLatin1 ''/tmp/a.txt''\<rparr>,
       \<lparr>url_scheme = fromLatin1 ''https'', url_rest = fromLatin1 ''//example.org/''\<rparr>]"
    by (simp add: urls_def file_and_https_def setUrls_def map_of_setVariant_same)
  have ne: "fromLatin1 ''https'' \<noteq> fromLatin1 ''file''"
    by (simp add: fromLatin1_def)
  have r1: "readData (createForDragAndDrop_DragData (Some file_and_https)) = Some file_and_https"
    by (simp add: readData_def createForDragAndDrop_DragData_def create_def)
  have r2: "readData createPrivate = None"
    by (simp add: readData_def createPrivate_def create_def)
  show ?thesis
    using C9_readFilenames_file_urls_only
        [of example_platform "createForDragAndDrop_DragData (Some file_and_https)"]
      C9_readFilenames_file_urls_only [of example_platform createPrivate]
      u ne r1 r2
    by (simp add: example_platform_def)
qed

subsection \<open>Document fragments\<close>

text \<open>
  C8. \<^verbatim>\<open>documentFragment\<close> reads the host clipboard (the selection target in selection
  mode). When the clipboard has a rich-text representation that is not empty and yields
  a fragment, that fragment is returned and \<^verbatim>\<open>chosePlainText\<close> is false. Otherwise, when
  plain text is allowed and the clipboard has a text representation, the result is
  whatever the plain text yields (a fragment or null) and \<^verbatim>\<open>chosePlainText\<close> is true.
  Otherwise the result is null and \<^verbatim>\<open>chosePlainText\<close> is false. Every case returns a
  value: the function has no error result.
\<close>

theorem C8_documentFragment_rich_then_plain:
  "(hasHtml (mimeData h (clipboardMode p))
      \<and> html pl (mimeData h (clipboardMode p)) \<noteq> []
      \<and> fromMarkup (html pl (mimeData h (clipboardMode p))) = Some fragment
    \<longrightarrow> documentFragment fromMarkup fromText pl allowPlainText h p = (Some fragment, False))
   \<and> (\<not> (hasHtml (mimeData h (clipboardMode p))
          \<and> html pl (mimeData h (clipboardMode p)) \<noteq> []
          \<and> fromMarkup (html pl (mimeData h (clipboardMode p))) \<noteq> None)
       \<and> allowPlainText \<and> hasText (mimeData h (clipboardMode p))
    \<longrightarrow> documentFragment fromMarkup fromText pl allowPlainText h p =
          (fromText (mime_text pl (mimeData h (clipboardMode p))), True))
   \<and> (\<not> (hasHtml (mimeData h (clipboardMode p))
          \<and> html pl (mimeData h (clipboardMode p)) \<noteq> []
          \<and> fromMarkup (html pl (mimeData h (clipboardMode p))) \<noteq> None)
       \<and> \<not> (allowPlainText \<and> hasText (mimeData h (clipboardMode p)))
    \<longrightarrow> documentFragment fromMarkup fromText pl allowPlainText h p = (None, False))"
  by (auto simp add: documentFragment_def Let_def split: option.splits)

lemma mimeData_clipboard_with: "mimeData (clipboard_with d) (clipboardMode createPrivate) = d"
  by (simp add: mimeData_def slot_def clipboard_with_def clipboardMode_def createPrivate_def
      create_def)

theorem C8_documentFragment_rich_then_plain_witness:
  "documentFragment (\<lambda>m. Some (MarkupFragment m)) (\<lambda>t. Some (TextFragment t))
      example_platform True (clipboard_with html_payload) createPrivate
     = (Some (MarkupFragment (fromLatin1 ''<b>x</b>'')), False)
   \<and> documentFragment (\<lambda>m. Some (MarkupFragment m)) (\<lambda>t. Some (TextFragment t))
      example_platform True (clipboard_with abc_payload) createPrivate
     = (Some (TextFragment (fromLatin1 ''abc'')), True)
   \<and> documentFragment (\<lambda>m. Some (MarkupFragment m)) (\<lambda>t. Some (TextFragment t))
      example_platform False (clipboard_with abc_payload) createPrivate
     = (None, False)
   \<and> documentFragment (\<lambda>m. None) (\<lambda>t. None) example_platform
      True (clipboard_with abc_payload) createPrivate
     = (None :: Fragment option, True)"
proof -
  have hh: "hasHtml html_payload"
    by (simp add: hasHtml_def hasFormat_def formats_def html_payload_def text_html_def)
  have hv: "html example_platform html_payload = fromLatin1 ''<b>x</b>''"
    by (simp add: html_def html_payload_def text_html_def)
  have hne: "fromLatin1 ''<b>x</b>'' \<noteq> []"
    by (simp add: fromLatin1_def)
  have nh: "\<not> hasHtml abc_payload"
    by (simp add: hasHtml_def hasFormat_def formats_def abc_payload_def text_html_def
        fromLatin1_def)
  have ht: "hasText abc_payload"
    by (simp add: hasText_def hasFormat_def formats_def abc_payload_def text_plain_def)
  have tv: "mime_text example_platform abc_payload = fromLatin1 ''abc''"
    by (simp add: mime_text_def abc_payload_def text_plain_def)
  show ?thesis
    using
      C8_documentFragment_rich_then_plain
        [of "clipboard_with html_payload" createPrivate example_platform
            "\<lambda>m. Some (MarkupFragment m)" "MarkupFragment (fromLatin1 ''<b>x</b>'')"
            "\<lambda>t. Some (TextFragment t)" True]
      C8_documentFragment_rich_then_plain
        [of "clipboard_with abc_payload" createPrivate example_platform
            "\<lambda>m. Some (MarkupFragment m)" "MarkupFragment []"
            "\<lambda>t. Some (TextFragment t)" True]
      C8_documentFragment_rich_then_plain
        [of "clipboard_with abc_payload" createPrivate example_platform
            "\<lambda>m. Some (MarkupFragment m)" "MarkupFragment []"
            "\<lambda>t. Some (TextFragment t)" False]
      C8_documentFragment_rich_then_plain
        [of "clipboard_with abc_payload" createPrivate example_platform
            "\<lambda>m. None" "MarkupFragment []" "\<lambda>t. None" True]
      hh hv hne nh ht tv
    by (simp add: mimeData_clipboard_with)
qed

subsection \<open>Which target of the host clipboard is read\<close>

lemma mimeData_setMimeData_other:
  "m' \<noteq> m \<Longrightarrow> mimeData (setMimeData src m h) m' = mimeData h m'"
  by (cases m; cases m') (simp_all add: mimeData_def setMimeData_def slot_def)

text \<open>
  C10. \<^verbatim>\<open>canSmartReplace\<close> looks for the smart-replace marker in the main target of the
  host clipboard, whatever the selection mode of the instance and whatever the selection
  target holds; the plain-text read operation reads the selection target on an instance
  in selection mode and the main target otherwise. So on an instance in selection mode a
  plain-text write, which goes to the selection target, is read back by the plain-text
  read and leaves the answer of \<^verbatim>\<open>canSmartReplace\<close> as it was.
\<close>

theorem C10_canSmartReplace_reads_main_clipboard:
  "canSmartReplace h p = hasFormat (mimeData h Clipboard) smartpaste
   \<and> canSmartReplace h (p\<lparr>m_selectionMode := b\<rparr>) = canSmartReplace h p
   \<and> canSmartReplace (setMimeData src Selection h) p = canSmartReplace h p
   \<and> (m_selectionMode p \<longrightarrow>
        read_PlainText pl h p = mime_text pl (mimeData h Selection)
        \<and> canSmartReplace (writePlainText txt opt h p) p = canSmartReplace h p
        \<and> read_PlainText pl (writePlainText txt opt h p) p =
            map (\<lambda>c. if c = 0xa0 then 0x20 else c) txt)
   \<and> (\<not> m_selectionMode p \<longrightarrow> read_PlainText pl h p = mime_text pl (mimeData h Clipboard))"
  using privileged_types_distinct
  by (auto simp add: canSmartReplace_def read_PlainText_def clipboardMode_def
      mimeData_setMimeData_other writePlainText_def Let_def mimeData_setMimeData
      mime_text_def map_of_setData_other setText_def map_of_setVariant_same replace_QChar_def)

theorem C10_canSmartReplace_reads_main_clipboard_witness:
  "m_selectionMode (createForGlobalSelection empty_clipboard)
   \<and> read_PlainText example_platform
        (writePlainText (fromLatin1 ''abc'') CanSmartReplace empty_clipboard
           (createForGlobalSelection empty_clipboard))
        (createForGlobalSelection empty_clipboard) = fromLatin1 ''abc''
   \<and> \<not> canSmartReplace
        (writePlainText (fromLatin1 ''abc'') CanSmartReplace empty_clipboard
           (createForGlobalSelection empty_clipboard))
        (createForGlobalSelection empty_clipboard)
   \<and> \<not> m_selectionMode createPrivate
   \<and> read_PlainText example_platform (clipboard_with abc_payload) createPrivate
       = fromLatin1 ''abc''"
proof -
  have a: "m_selectionMode (createForGlobalSelection empty_clipboard)"
    by (simp add: createForGlobalSelection_def)
  have b: "\<not> canSmartReplace empty_clipboard (createForGlobalSelection empty_clipboard)"
    by (simp add: canSmartReplace_def mimeData_def slot_def empty_clipboard_def hasFormat_def
        formats_def)
  have c: "\<not> m_selectionMode createPrivate"
    by (simp add: createPrivate_def create_def)
  have d: "mime_text example_platform (mimeData (clipboard_with abc_payload) Clipboard)
      = fromLatin1 ''abc''"
    by (simp add: mime_text_def mimeData_def slot_def clipboard_with_def abc_payload_def
        text_plain_def)
  have e: "map (\<lambda>c. if c = 0xa0 then 0x20 else c) (fromLatin1 ''abc'') = fromLatin1 ''abc''"
    by (simp add: fromLatin1_def)
  show ?thesis
    using
      C10_canSmartReplace_reads_main_clipboard
        [of empty_clipboard "createForGlobalSelection empty_clipboard" True None
            example_platform "fromLatin1 ''abc''" CanSmartReplace]
      C10_canSmartReplace_reads_main_clipboard
        [of "clipboard_with abc_payload" createPrivate False None
            example_platform "fromLatin1 ''abc''" CanSmartReplace]
      a b c d e
    by simp
qed

end
